theory Spec2Isabelle
  imports Main "HOL-Library.Word"
begin

unbundle bit_operations_syntax

section \<open>Errors, results and bytes\<close>

text \<open>
  The sentinel errors of package \<open>internal\<close> that the modelled code returns or panics
  with. \<open>ErrBackend m\<close> is an error value created by an arithmetic provider itself, with
  message \<open>m\<close>; \<open>ErrWrap p e\<close> is \<open>fmt.Errorf(p + ": %w", e)\<close>. A bare
  \<open>fmt.Errorf("%w", err)\<close> keeps both the message and the wrapped identity of \<open>err\<close> and is
  modelled as \<open>err\<close> itself. \<open>ErrIndexOutOfRange\<close> is the Go runtime's panic on a slice index
  outside the slice.
\<close>

datatype error =
    ErrCastScalar
  | ErrCastElement
  | ErrParamNilScalar
  | ErrParamScalarLength
  | ErrParamScalarInvalidEncoding
  | ErrParamNilPoint
  | ErrParamInvalidPointEncoding
  | ErrIdentity
  | ErrUInt64TooBig
  | ErrIndexOutOfRange
  | ErrBackend string
  | ErrWrap string error

text \<open>A call either returns or panics.\<close>

datatype 'a res = Return 'a | Panic error

type_synonym byte = "8 word"

text \<open>
  Little-endian and big-endian readings of a byte string as an unsigned integer, and the
  fixed-length little-endian writing of an integer (the low \<open>n\<close> bytes).
\<close>

fun le_val :: "byte list \<Rightarrow> nat" where
  "le_val [] = 0"
| "le_val (b # bs) = unat b + 256 * le_val bs"

fun le_bytes :: "nat \<Rightarrow> nat \<Rightarrow> byte list" where
  "le_bytes 0 v = []"
| "le_bytes (Suc n) v = of_nat (v mod 256) # le_bytes n (v div 256)"

definition be_val :: "byte list \<Rightarrow> nat" where
  "be_val bs = le_val (rev bs)"

definition be_bytes :: "nat \<Rightarrow> nat \<Rightarrow> byte list" where
  "be_bytes n v = rev (le_bytes n v)"

section \<open>Constants of the backend packages\<close>

text \<open>
  \<open>orderBytes\<close> and \<open>scMinusOne\<close> as packages edwards25519 and ristretto declare them,
  and \<open>canonicalEncodingLength\<close> as package ristretto declares it. Package edwards25519
  uses a constant of the same name whose declaration is not among the sources; its \<open>init\<close>
  decodes 32-byte strings against it.
\<close>

definition orderBytes :: "byte list" where
  "orderBytes =
    [237, 211, 245, 92, 26, 99, 18, 88, 214, 156, 247, 162, 222, 249, 222, 20,
     0, 0, 0, 0, 0, 0, 0, 0, 0, 0, 0, 0, 0, 0, 0, 16]"

definition scMinusOne :: "byte list" where
  "scMinusOne =
    [236, 211, 245, 92, 26, 99, 18, 88, 214, 156, 247, 162, 222, 249, 222, 20,
     0, 0, 0, 0, 0, 0, 0, 0, 0, 0, 0, 0, 0, 0, 0, 16]"

definition canonicalEncodingLength :: nat where
  "canonicalEncodingLength = 32"

text \<open>
  Modelled from the spec: the constant \<open>scalarLength\<close> of package secp256k1, whose
  declaration is not among the sources: the fixed byte size of an encoded scalar of the
  group.
\<close>

definition scalarLength :: nat where
  "scalarLength = 32"

section \<open>The scalar arithmetic providers\<close>

text \<open>
  Modelled from the spec: the scalar types of the external providers
  \<open>filippo.io/edwards25519\<close> and \<open>github.com/gtank/ristretto255\<close>, which are not part of
  the repository. Both are the integers modulo the same prime group order (the value of
  \<open>orderBytes\<close>, read little-endian), held reduced, with a 32-byte little-endian canonical
  encoding; decoding rejects a wrong length and a value that is not below the order. A
  provider scalar is modelled by its value.
\<close>

definition order :: nat where
  "order = 7237005577332262213973186563042994240857116359379907606001950938285454250989"

definition sc_NewScalar :: nat where
  "sc_NewScalar = 0"

definition sc_Add :: "nat \<Rightarrow> nat \<Rightarrow> nat" where
  "sc_Add x y = (x + y) mod order"

definition sc_Subtract :: "nat \<Rightarrow> nat \<Rightarrow> nat" where
  "sc_Subtract x y = (x + (order - y mod order)) mod order"

definition sc_Multiply :: "nat \<Rightarrow> nat \<Rightarrow> nat" where
  "sc_Multiply x y = (x * y) mod order"

definition sc_Equal :: "nat \<Rightarrow> nat \<Rightarrow> int" where
  "sc_Equal x y = (if x = y then 1 else 0)"

definition sc_Bytes :: "nat \<Rightarrow> byte list" where
  "sc_Bytes x = le_bytes 32 x"

definition sc_SetCanonicalBytes :: "byte list \<Rightarrow> error + nat" where
  "sc_SetCanonicalBytes x =
    (if length x \<noteq> 32 then Inl (ErrBackend ''invalid scalar length'')
     else if order \<le> le_val x then Inl (ErrBackend ''invalid scalar encoding'')
     else Inr (le_val x))"

text \<open>
  Modelled from the spec: the scalar type of the external provider
  \<open>github.com/0xBridge/secp256k1\<close>: the integers modulo the secp256k1 group order with a
  32-byte big-endian canonical encoding. Its \<open>Decode\<close> reports a value that is not below the
  order with the message the wrapper tests for. Its ring operations are written out where
  the wrapper calls them.
\<close>

definition secp_order :: nat where
  "secp_order = 115792089237316195423570985008687907852837564279074904382605163141518161494337"

definition secp_lib_Encode :: "nat \<Rightarrow> byte list" where
  "secp_lib_Encode x = be_bytes 32 x"

definition secp_lib_Decode :: "byte list \<Rightarrow> error + nat" where
  "secp_lib_Decode x =
    (if length x \<noteq> 32 then Inl (ErrBackend ''invalid scalar length'')
     else if secp_order \<le> be_val x then Inl (ErrBackend ''scalar too big'')
     else Inr (be_val x))"


definition secp_lib_Pow :: "nat \<Rightarrow> nat \<Rightarrow> nat" where
  "secp_lib_Pow x y = (x ^ y) mod secp_order"

definition secp_lib_LessOrEqual :: "nat \<Rightarrow> nat \<Rightarrow> int" where
  "secp_lib_LessOrEqual x y = (if x \<le> y then 1 else 0)"

section \<open>Backend scalars behind the \<open>internal.Scalar\<close> interface\<close>

text \<open>
  A value of the interface \<open>internal.Scalar\<close> is a scalar of one of the backend packages;
  the interface value \<open>nil\<close> is \<open>None\<close> of the option type.
\<close>

datatype internal_Scalar =
    Ed25519Scalar nat
  | Ristretto255Scalar nat
  | Secp256k1Scalar nat

subsection \<open>Code shared verbatim by packages edwards25519 and ristretto\<close>

text \<open>
  \<open>multiply\<close> and \<open>square\<close> call the provider's \<open>Multiply\<close> on the receiver.
\<close>

definition multiply :: "nat \<Rightarrow> nat \<Rightarrow> nat" where
  "multiply s scalar = sc_Multiply s scalar"

definition square :: "nat \<Rightarrow> nat" where
  "square s = sc_Multiply s s"

text \<open>
  \<open>getMSBit\<close>: the loop \<open>for i := 7; i >= 0; i--\<close>. The counter of \<open>getMSBit_loop\<close> is
  the number of iterations left, so the iteration at counter \<open>Suc i\<close> is the one with loop
  variable \<open>i\<close>.
\<close>

fun getMSBit_loop :: "byte \<Rightarrow> nat \<Rightarrow> nat" where
  "getMSBit_loop in' 0 = 0"
| "getMSBit_loop in' (Suc i) =
    (if in' AND push_bit i 1 \<noteq> 0 then i else getMSBit_loop in' i)"

definition getMSBit :: "byte \<Rightarrow> nat" where
  "getMSBit in' = getMSBit_loop in' 8"

text \<open>\<open>getMSByte\<close>: \<open>for i, b := range in\<close>, keeping the last index of a non-zero byte.\<close>

fun getMSByte_loop :: "nat \<Rightarrow> nat \<Rightarrow> byte list \<Rightarrow> nat" where
  "getMSByte_loop msb i [] = msb"
| "getMSByte_loop msb i (b # bs) = getMSByte_loop (if b \<noteq> 0 then i else msb) (Suc i) bs"

definition getMSByte :: "byte list \<Rightarrow> nat" where
  "getMSByte in' = getMSByte_loop 0 0 in'"

text \<open>
  The body of both loops of \<open>Pow\<close> on the pair \<open>(s1, s2)\<close>, for bit \<open>j\<close> of byte \<open>b\<close>; the
  statements of each branch run in the source's order.
\<close>

definition pow_step :: "byte \<Rightarrow> nat \<Rightarrow> nat \<times> nat \<Rightarrow> nat \<times> nat" where
  "pow_step b j st =
    (case st of (s1, s2) \<Rightarrow>
      (let bit = b AND push_bit j 1 in
       if bit = 0 then (let s2' = multiply s2 s1; s1' = square s1 in (s1', s2'))
       else (let s1' = multiply s1 s2; s2' = square s2 in (s1', s2'))))"

text \<open>\<open>for j := n - 1; j >= 0; j--\<close> over the bits of one byte.\<close>

fun pow_bits :: "byte \<Rightarrow> nat \<Rightarrow> nat \<times> nat \<Rightarrow> nat \<times> nat" where
  "pow_bits b 0 st = st"
| "pow_bits b (Suc j) st = pow_bits b j (pow_step b j st)"

text \<open>\<open>for i := n - 1; i >= 0; i--\<close> over the bytes below the most significant one.\<close>

fun pow_bytes :: "byte list \<Rightarrow> nat \<Rightarrow> nat \<times> nat \<Rightarrow> nat \<times> nat" where
  "pow_bytes bytes 0 st = st"
| "pow_bytes bytes (Suc i) st = pow_bytes bytes i (pow_bits (bytes ! i) 8 st)"

text \<open>
  The ladder of \<open>Pow\<close> from the two accumulators and the exponent's bytes to the final
  accumulators. Every index into \<open>bytes\<close> is at most \<open>msbyte\<close>; the runtime's bounds
  check is written once, for \<open>bytes[msbyte]\<close>.
\<close>

definition pow_ladder :: "byte list \<Rightarrow> nat \<times> nat \<Rightarrow> (nat \<times> nat) res" where
  "pow_ladder bytes st =
    (let msbyte = getMSByte bytes
     in if length bytes \<le> msbyte then Panic ErrIndexOutOfRange
        else
         (let msbit = getMSBit (bytes ! msbyte);
              b = bytes ! msbyte;
              st = pow_bits b msbit st
          in Return (pow_bytes bytes msbyte st)))"

text \<open>
  The loop of \<open>LessOrEqual\<close>: \<open>for i--; i >= 0; i--\<close> with
  \<open>res = res || (ienc[i] > jenc[i])\<close>; the counter is the number of iterations left.
\<close>

fun LessOrEqual_loop :: "byte list \<Rightarrow> byte list \<Rightarrow> nat \<Rightarrow> bool \<Rightarrow> bool" where
  "LessOrEqual_loop ienc jenc 0 res = res"
| "LessOrEqual_loop ienc jenc (Suc i) res =
    LessOrEqual_loop ienc jenc i (res \<or> ienc ! i > jenc ! i)"

definition LessOrEqual_enc :: "byte list \<Rightarrow> byte list \<Rightarrow> int res" where
  "LessOrEqual_enc ienc jenc =
    (let i = length ienc
     in if i \<noteq> length jenc then Panic ErrParamScalarLength
        else if LessOrEqual_loop ienc jenc i False then Return 0
        else Return 1)"





subsection \<open>Package edwards25519\<close>

text \<open>\<open>assert\<close>: the type assertion fails on \<open>nil\<close> and on another backend's scalar.\<close>

fun ed_assert :: "internal_Scalar option \<Rightarrow> nat res" where
  "ed_assert (Some (Ed25519Scalar v)) = Return v"
| "ed_assert _ = Panic ErrCastScalar"

definition ed_set :: "nat \<Rightarrow> nat" where
  "ed_set scalar = scalar"

definition ed_copy :: "nat \<Rightarrow> nat" where
  "ed_copy s = s"

definition ed_Zero :: "nat \<Rightarrow> nat" where
  "ed_Zero s = sc_NewScalar"

definition ed_decodeScalar :: "nat \<Rightarrow> byte list \<Rightarrow> nat \<times> error option" where
  "ed_decodeScalar s scalar =
    (if length scalar = 0 then (s, Some ErrParamNilScalar)
     else if length scalar \<noteq> canonicalEncodingLength then (s, Some ErrParamScalarLength)
     else (case sc_SetCanonicalBytes scalar of
             Inl err \<Rightarrow> (s, Some err)
           | Inr v \<Rightarrow> (v, None)))"

definition ed_Decode :: "nat \<Rightarrow> byte list \<Rightarrow> nat \<times> error option" where
  "ed_Decode s in' = ed_decodeScalar s in'"

definition ed_Encode :: "nat \<Rightarrow> byte list" where
  "ed_Encode s = sc_Bytes s"

text \<open>\<open>scOne\<close> is set by \<open>init\<close>: the decoding of the byte string 1, 0, ..., 0.\<close>

definition ed_scOne :: nat where
  "ed_scOne = fst (ed_Decode sc_NewScalar (1 # replicate 31 0))"

definition ed_One :: "nat \<Rightarrow> nat" where
  "ed_One s = ed_set ed_scOne"

definition ed_MinusOne :: "nat \<Rightarrow> nat" where
  "ed_MinusOne s = fst (ed_decodeScalar s scMinusOne)"

definition ed_IsZero :: "nat \<Rightarrow> bool" where
  "ed_IsZero s = (sc_Equal s sc_NewScalar = 1)"

definition ed_Add :: "nat \<Rightarrow> internal_Scalar option \<Rightarrow> nat res" where
  "ed_Add s scalar =
    (if scalar = None then Return s
     else case ed_assert scalar of
            Panic e \<Rightarrow> Panic e
          | Return sc \<Rightarrow> Return (sc_Add s sc))"

definition ed_Subtract :: "nat \<Rightarrow> internal_Scalar option \<Rightarrow> nat res" where
  "ed_Subtract s scalar =
    (if scalar = None then Return s
     else case ed_assert scalar of
            Panic e \<Rightarrow> Panic e
          | Return sc \<Rightarrow> Return (sc_Subtract s sc))"

definition ed_Multiply :: "nat \<Rightarrow> internal_Scalar option \<Rightarrow> nat res" where
  "ed_Multiply s scalar =
    (if scalar = None then Return (ed_Zero s)
     else case ed_assert scalar of
            Panic e \<Rightarrow> Panic e
          | Return sc \<Rightarrow> Return (multiply s sc))"

text \<open>
  \<open>Pow\<close>. The receiver is written only by the final \<open>set\<close>, so a panic leaves no trace.
  The closing \<open>scalar.IsZero()\<close> runs on an argument that has passed \<open>assert\<close>, hence on
  this package's \<open>IsZero\<close>.
\<close>

definition ed_Pow :: "nat \<Rightarrow> internal_Scalar option \<Rightarrow> nat res" where
  "ed_Pow s scalar =
    (let s1 = ed_copy s;
         s2 = square (ed_copy s)
     in case ed_assert scalar of
          Panic e \<Rightarrow> Panic e
        | Return sc \<Rightarrow>
           (case pow_ladder (sc_Bytes sc) (s1, s2) of
              Panic e \<Rightarrow> Panic e
            | Return st \<Rightarrow>
               (let st = (if ed_IsZero sc then (ed_One (fst st), snd st)
                          else (fst st, ed_One (snd st)))
                in Return (ed_set (fst st)))))"

definition ed_Equal :: "nat \<Rightarrow> internal_Scalar option \<Rightarrow> int res" where
  "ed_Equal s scalar =
    (if scalar = None then Return 0
     else case ed_assert scalar of
            Panic e \<Rightarrow> Panic e
          | Return sc \<Rightarrow> Return (sc_Equal s sc))"

definition ed_LessOrEqual :: "nat \<Rightarrow> internal_Scalar option \<Rightarrow> int res" where
  "ed_LessOrEqual s scalar =
    (case ed_assert scalar of
       Panic e \<Rightarrow> Panic e
     | Return sc \<Rightarrow> LessOrEqual_enc (ed_Encode s) (ed_Encode sc))"

definition ed_Set :: "nat \<Rightarrow> internal_Scalar option \<Rightarrow> nat res" where
  "ed_Set s scalar =
    (if scalar = None then Return (ed_Zero s)
     else case ed_assert scalar of
            Panic e \<Rightarrow> Panic e
          | Return ec \<Rightarrow> Return ec)"



subsection \<open>Package ristretto\<close>

fun rist_assert :: "internal_Scalar option \<Rightarrow> nat res" where
  "rist_assert (Some (Ristretto255Scalar v)) = Return v"
| "rist_assert _ = Panic ErrCastScalar"

definition rist_scZero :: nat where
  "rist_scZero = sc_NewScalar"

definition rist_set :: "nat \<Rightarrow> nat" where
  "rist_set scalar = sc_Add rist_scZero scalar"

definition rist_copy :: "nat \<Rightarrow> nat" where
  "rist_copy s = sc_Add sc_NewScalar s"

definition rist_Zero :: "nat \<Rightarrow> nat" where
  "rist_Zero s = 0"

definition rist_decodeScalar :: "nat \<Rightarrow> byte list \<Rightarrow> nat \<times> error option" where
  "rist_decodeScalar s scalar =
    (if length scalar = 0 then (s, Some ErrParamNilScalar)
     else if length scalar \<noteq> canonicalEncodingLength then (s, Some ErrParamScalarLength)
     else (case sc_SetCanonicalBytes scalar of
             Inl err \<Rightarrow> (s, Some err)
           | Inr v \<Rightarrow> (v, None)))"

definition rist_Decode :: "nat \<Rightarrow> byte list \<Rightarrow> nat \<times> error option" where
  "rist_Decode s in' = rist_decodeScalar s in'"

definition rist_Encode :: "nat \<Rightarrow> byte list" where
  "rist_Encode s = sc_Bytes s"

definition rist_scOne :: nat where
  "rist_scOne = fst (rist_Decode sc_NewScalar (1 # replicate 31 0))"

definition rist_One :: "nat \<Rightarrow> nat" where
  "rist_One s = rist_set rist_scOne"

definition rist_MinusOne :: "nat \<Rightarrow> nat" where
  "rist_MinusOne s = fst (rist_decodeScalar s scMinusOne)"

definition rist_IsZero :: "nat \<Rightarrow> bool" where
  "rist_IsZero s = (sc_Equal s rist_scZero = 1)"

definition rist_Add :: "nat \<Rightarrow> internal_Scalar option \<Rightarrow> nat res" where
  "rist_Add s scalar =
    (if scalar = None then Return s
     else case rist_assert scalar of
            Panic e \<Rightarrow> Panic e
          | Return sc \<Rightarrow> Return (sc_Add s sc))"

definition rist_Subtract :: "nat \<Rightarrow> internal_Scalar option \<Rightarrow> nat res" where
  "rist_Subtract s scalar =
    (if scalar = None then Return s
     else case rist_assert scalar of
            Panic e \<Rightarrow> Panic e
          | Return sc \<Rightarrow> Return (sc_Subtract s sc))"

definition rist_Multiply :: "nat \<Rightarrow> internal_Scalar option \<Rightarrow> nat res" where
  "rist_Multiply s scalar =
    (if scalar = None then Return (rist_Zero s)
     else case rist_assert scalar of
            Panic e \<Rightarrow> Panic e
          | Return sc \<Rightarrow> Return (multiply s sc))"

definition rist_Pow :: "nat \<Rightarrow> internal_Scalar option \<Rightarrow> nat res" where
  "rist_Pow s scalar =
    (let s1 = rist_copy s;
         s2 = square (rist_copy s)
     in case rist_assert scalar of
          Panic e \<Rightarrow> Panic e
        | Return sc \<Rightarrow>
           (case pow_ladder (rist_Encode sc) (s1, s2) of
              Panic e \<Rightarrow> Panic e
            | Return st \<Rightarrow>
               (let st = (if rist_IsZero sc then (rist_One (fst st), snd st)
                          else (fst st, rist_One (snd st)))
                in Return (rist_set (fst st)))))"

definition rist_Equal :: "nat \<Rightarrow> internal_Scalar option \<Rightarrow> int res" where
  "rist_Equal s scalar =
    (if scalar = None then Return 0
     else case rist_assert scalar of
            Panic e \<Rightarrow> Panic e
          | Return sc \<Rightarrow> Return (sc_Equal s sc))"

definition rist_LessOrEqual :: "nat \<Rightarrow> internal_Scalar option \<Rightarrow> int res" where
  "rist_LessOrEqual s scalar =
    (case rist_assert scalar of
       Panic e \<Rightarrow> Panic e
     | Return sc \<Rightarrow> LessOrEqual_enc (rist_Encode s) (rist_Encode sc))"

definition rist_Set :: "nat \<Rightarrow> internal_Scalar option \<Rightarrow> nat res" where
  "rist_Set s scalar =
    (if scalar = None then Return (rist_Zero s)
     else case rist_assert scalar of
            Panic e \<Rightarrow> Panic e
          | Return ec \<Rightarrow> Return ec)"



subsection \<open>Package secp256k1\<close>

text \<open>
  The wrapper delegates the arithmetic to the provider; \<open>UInt64\<close>, \<open>Decode\<close> and the
  guards of \<open>Pow\<close> are its own.
\<close>

fun secp_assert :: "internal_Scalar option \<Rightarrow> nat res" where
  "secp_assert (Some (Secp256k1Scalar v)) = Return v"
| "secp_assert _ = Panic ErrCastScalar"

definition secp_newScalar :: nat where
  "secp_newScalar = 0"

definition secp_Zero :: "nat \<Rightarrow> nat" where
  "secp_Zero s = 0"

definition secp_One :: "nat \<Rightarrow> nat" where
  "secp_One s = 1"

definition secp_MinusOne :: "nat \<Rightarrow> nat" where
  "secp_MinusOne s = secp_order - 1"

definition secp_IsZero :: "nat \<Rightarrow> bool" where
  "secp_IsZero s = (s = 0)"

definition secp_Add :: "nat \<Rightarrow> internal_Scalar option \<Rightarrow> nat res" where
  "secp_Add s scalar =
    (if scalar = None then Return s
     else case secp_assert scalar of
            Panic e \<Rightarrow> Panic e
          | Return sc \<Rightarrow> Return ((s + sc) mod secp_order))"

definition secp_Subtract :: "nat \<Rightarrow> internal_Scalar option \<Rightarrow> nat res" where
  "secp_Subtract s scalar =
    (if scalar = None then Return s
     else case secp_assert scalar of
            Panic e \<Rightarrow> Panic e
          | Return sc \<Rightarrow> Return ((s + (secp_order - sc mod secp_order)) mod secp_order))"

definition secp_Multiply :: "nat \<Rightarrow> internal_Scalar option \<Rightarrow> nat res" where
  "secp_Multiply s scalar =
    (if scalar = None then Return (secp_Zero s)
     else case secp_assert scalar of
            Panic e \<Rightarrow> Panic e
          | Return sc \<Rightarrow> Return ((s * sc) mod secp_order))"

definition secp_Equal :: "nat \<Rightarrow> internal_Scalar option \<Rightarrow> int res" where
  "secp_Equal s scalar =
    (if scalar = None then Return 0
     else case secp_assert scalar of
            Panic e \<Rightarrow> Panic e
          | Return sc \<Rightarrow> Return (if s = sc then 1 else 0))"

definition secp_LessOrEqual :: "nat \<Rightarrow> internal_Scalar option \<Rightarrow> int res" where
  "secp_LessOrEqual s scalar =
    (case secp_assert scalar of
       Panic e \<Rightarrow> Panic e
     | Return sc \<Rightarrow> Return (secp_lib_LessOrEqual s sc))"

definition secp_Set :: "nat \<Rightarrow> internal_Scalar option \<Rightarrow> nat res" where
  "secp_Set s scalar =
    (if scalar = None then Return (secp_Zero s)
     else case secp_assert scalar of
            Panic e \<Rightarrow> Panic e
          | Return sc \<Rightarrow> Return sc)"



definition secp_Encode :: "nat \<Rightarrow> byte list" where
  "secp_Encode s = secp_lib_Encode s"

text \<open>\<open>Decode\<close> compares the provider error's message with \<open>"scalar too big"\<close>.\<close>

definition secp_Decode :: "nat \<Rightarrow> byte list \<Rightarrow> nat \<times> error option" where
  "secp_Decode s in' =
    (case secp_lib_Decode in' of
       Inl err \<Rightarrow>
         (if err = ErrBackend ''scalar too big'' then (s, Some ErrParamScalarInvalidEncoding)
          else (s, Some err))
     | Inr v \<Rightarrow> (v, None))"

subsection \<open>Method calls through the interface\<close>

fun internal_IsZero :: "internal_Scalar \<Rightarrow> bool" where
  "internal_IsZero (Ed25519Scalar s) = ed_IsZero s"
| "internal_IsZero (Ristretto255Scalar s) = rist_IsZero s"
| "internal_IsZero (Secp256k1Scalar s) = secp_IsZero s"

fun internal_Equal :: "internal_Scalar \<Rightarrow> internal_Scalar option \<Rightarrow> int res" where
  "internal_Equal (Ed25519Scalar s) x = ed_Equal s x"
| "internal_Equal (Ristretto255Scalar s) x = rist_Equal s x"
| "internal_Equal (Secp256k1Scalar s) x = secp_Equal s x"

text \<open>
  \<open>Pow\<close> of package secp256k1 calls \<open>IsZero\<close> and \<open>Equal\<close> on its argument before the
  type assertion, hence through the interface.
\<close>

definition secp_Pow :: "nat \<Rightarrow> internal_Scalar option \<Rightarrow> nat res" where
  "secp_Pow s scalar =
    (case scalar of
       None \<Rightarrow> Return (secp_One s)
     | Some x \<Rightarrow>
        (if internal_IsZero x then Return (secp_One s)
         else case internal_Equal x (Some (Secp256k1Scalar (secp_One secp_newScalar))) of
                Panic e \<Rightarrow> Panic e
              | Return r \<Rightarrow>
                 (if r = 1 then Return s
                  else case secp_assert scalar of
                         Panic e \<Rightarrow> Panic e
                       | Return sc \<Rightarrow> Return (secp_lib_Pow s sc))))"

fun internal_Zero :: "internal_Scalar \<Rightarrow> internal_Scalar" where
  "internal_Zero (Ed25519Scalar s) = Ed25519Scalar (ed_Zero s)"
| "internal_Zero (Ristretto255Scalar s) = Ristretto255Scalar (rist_Zero s)"
| "internal_Zero (Secp256k1Scalar s) = Secp256k1Scalar (secp_Zero s)"

fun internal_One :: "internal_Scalar \<Rightarrow> internal_Scalar" where
  "internal_One (Ed25519Scalar s) = Ed25519Scalar (ed_One s)"
| "internal_One (Ristretto255Scalar s) = Ristretto255Scalar (rist_One s)"
| "internal_One (Secp256k1Scalar s) = Secp256k1Scalar (secp_One s)"

fun internal_Add :: "internal_Scalar \<Rightarrow> internal_Scalar option \<Rightarrow> internal_Scalar res" where
  "internal_Add (Ed25519Scalar s) x = map_res Ed25519Scalar (ed_Add s x)"
| "internal_Add (Ristretto255Scalar s) x = map_res Ristretto255Scalar (rist_Add s x)"
| "internal_Add (Secp256k1Scalar s) x = map_res Secp256k1Scalar (secp_Add s x)"

fun internal_Subtract :: "internal_Scalar \<Rightarrow> internal_Scalar option \<Rightarrow> internal_Scalar res" where
  "internal_Subtract (Ed25519Scalar s) x = map_res Ed25519Scalar (ed_Subtract s x)"
| "internal_Subtract (Ristretto255Scalar s) x = map_res Ristretto255Scalar (rist_Subtract s x)"
| "internal_Subtract (Secp256k1Scalar s) x = map_res Secp256k1Scalar (secp_Subtract s x)"

fun internal_Multiply :: "internal_Scalar \<Rightarrow> internal_Scalar option \<Rightarrow> internal_Scalar res" where
  "internal_Multiply (Ed25519Scalar s) x = map_res Ed25519Scalar (ed_Multiply s x)"
| "internal_Multiply (Ristretto255Scalar s) x = map_res Ristretto255Scalar (rist_Multiply s x)"
| "internal_Multiply (Secp256k1Scalar s) x = map_res Secp256k1Scalar (secp_Multiply s x)"

fun internal_Pow :: "internal_Scalar \<Rightarrow> internal_Scalar option \<Rightarrow> internal_Scalar res" where
  "internal_Pow (Ed25519Scalar s) x = map_res Ed25519Scalar (ed_Pow s x)"
| "internal_Pow (Ristretto255Scalar s) x = map_res Ristretto255Scalar (rist_Pow s x)"
| "internal_Pow (Secp256k1Scalar s) x = map_res Secp256k1Scalar (secp_Pow s x)"

fun internal_LessOrEqual :: "internal_Scalar \<Rightarrow> internal_Scalar option \<Rightarrow> int res" where
  "internal_LessOrEqual (Ed25519Scalar s) x = ed_LessOrEqual s x"
| "internal_LessOrEqual (Ristretto255Scalar s) x = rist_LessOrEqual s x"
| "internal_LessOrEqual (Secp256k1Scalar s) x = secp_LessOrEqual s x"

fun internal_Set :: "internal_Scalar \<Rightarrow> internal_Scalar option \<Rightarrow> internal_Scalar res" where
  "internal_Set (Ed25519Scalar s) x = map_res Ed25519Scalar (ed_Set s x)"
| "internal_Set (Ristretto255Scalar s) x = map_res Ristretto255Scalar (rist_Set s x)"
| "internal_Set (Secp256k1Scalar s) x = map_res Secp256k1Scalar (secp_Set s x)"



fun internal_Encode :: "internal_Scalar \<Rightarrow> byte list" where
  "internal_Encode (Ed25519Scalar s) = ed_Encode s"
| "internal_Encode (Ristretto255Scalar s) = rist_Encode s"
| "internal_Encode (Secp256k1Scalar s) = secp_Encode s"

fun internal_Decode :: "internal_Scalar \<Rightarrow> byte list \<Rightarrow> internal_Scalar \<times> error option" where
  "internal_Decode (Ed25519Scalar s) d = map_prod Ed25519Scalar id (ed_Decode s d)"
| "internal_Decode (Ristretto255Scalar s) d = map_prod Ristretto255Scalar id (rist_Decode s d)"
| "internal_Decode (Secp256k1Scalar s) d = map_prod Secp256k1Scalar id (secp_Decode s d)"

text \<open>
  \<open>Group\<close> returns the backend's \<open>Identifier\<close>: \<open>byte(1)\<close> in package ristretto; the
  identifiers of the other two packages are declared outside the sources and are taken from
  the table of groups in the repository's README: 6 for Edwards25519 and 7 for Secp256k1.
\<close>

fun internal_Group :: "internal_Scalar \<Rightarrow> byte" where
  "internal_Group (Ed25519Scalar s) = 6"
| "internal_Group (Ristretto255Scalar s) = 1"
| "internal_Group (Secp256k1Scalar s) = 7"

text \<open>\<open>Group.ScalarLength\<close> of the backend a scalar belongs to.\<close>

fun ScalarLength :: "internal_Scalar \<Rightarrow> nat" where
  "ScalarLength (Ed25519Scalar s) = canonicalEncodingLength"
| "ScalarLength (Ristretto255Scalar s) = canonicalEncodingLength"
| "ScalarLength (Secp256k1Scalar s) = scalarLength"

text \<open>
  The data model's invariant of a scalar: its value is reduced, that is below the order of
  its group. Every provider operation returns reduced values.
\<close>

fun in_range :: "internal_Scalar \<Rightarrow> bool" where
  "in_range (Ed25519Scalar s) = (s < order)"
| "in_range (Ristretto255Scalar s) = (s < order)"
| "in_range (Secp256k1Scalar s) = (s < secp_order)"

section \<open>Package ecc: the \<open>Scalar\<close> abstraction\<close>

text \<open>
  \<open>ecc.Scalar\<close> is a struct around one \<open>internal.Scalar\<close>; a \<open>nil\<close> pointer argument
  is \<open>None\<close>. A method that sets the receiver and returns it is a function to the
  receiver's new value.
\<close>

datatype Scalar = Scalar (internal: internal_Scalar)

definition ecc_Group :: "Scalar \<Rightarrow> byte" where
  "ecc_Group s = internal_Group (internal s)"

definition ecc_Zero :: "Scalar \<Rightarrow> Scalar" where
  "ecc_Zero s = Scalar (internal_Zero (internal s))"

definition ecc_One :: "Scalar \<Rightarrow> Scalar" where
  "ecc_One s = Scalar (internal_One (internal s))"

definition ecc_Add :: "Scalar \<Rightarrow> Scalar option \<Rightarrow> Scalar res" where
  "ecc_Add s scalar =
    (case scalar of
       None \<Rightarrow> Return s
     | Some x \<Rightarrow> map_res Scalar (internal_Add (internal s) (Some (internal x))))"

definition ecc_Subtract :: "Scalar \<Rightarrow> Scalar option \<Rightarrow> Scalar res" where
  "ecc_Subtract s scalar =
    (case scalar of
       None \<Rightarrow> Return s
     | Some x \<Rightarrow> map_res Scalar (internal_Subtract (internal s) (Some (internal x))))"

definition ecc_Multiply :: "Scalar \<Rightarrow> Scalar option \<Rightarrow> Scalar res" where
  "ecc_Multiply s scalar =
    (case scalar of
       None \<Rightarrow> Return (ecc_Zero s)
     | Some x \<Rightarrow> map_res Scalar (internal_Multiply (internal s) (Some (internal x))))"

definition ecc_Pow :: "Scalar \<Rightarrow> Scalar option \<Rightarrow> Scalar res" where
  "ecc_Pow s scalar =
    (case scalar of
       None \<Rightarrow> Return (ecc_One s)
     | Some x \<Rightarrow> map_res Scalar (internal_Pow (internal s) (Some (internal x))))"

definition ecc_Equal :: "Scalar \<Rightarrow> Scalar option \<Rightarrow> bool res" where
  "ecc_Equal s scalar =
    (case scalar of
       None \<Rightarrow> Return False
     | Some x \<Rightarrow> map_res (\<lambda>r. r = 1) (internal_Equal (internal s) (Some (internal x))))"

definition ecc_LessOrEqual :: "Scalar \<Rightarrow> Scalar option \<Rightarrow> bool res" where
  "ecc_LessOrEqual s scalar =
    (case scalar of
       None \<Rightarrow> Return False
     | Some x \<Rightarrow> map_res (\<lambda>r. r = 1) (internal_LessOrEqual (internal s) (Some (internal x))))"

definition ecc_IsZero :: "Scalar \<Rightarrow> bool" where
  "ecc_IsZero s = internal_IsZero (internal s)"

definition ecc_Set :: "Scalar \<Rightarrow> Scalar option \<Rightarrow> Scalar res" where
  "ecc_Set s scalar =
    (case scalar of
       None \<Rightarrow> Return (ecc_Zero s)
     | Some x \<Rightarrow> map_res Scalar (internal_Set (internal s) (Some (internal x))))"



definition ecc_Encode :: "Scalar \<Rightarrow> byte list" where
  "ecc_Encode s = internal_Encode (internal s)"

definition ecc_Decode :: "Scalar \<Rightarrow> byte list \<Rightarrow> Scalar \<times> error option" where
  "ecc_Decode s data =
    (case internal_Decode (internal s) data of
       (s', Some err) \<Rightarrow> (Scalar s', Some (ErrWrap ''scalar Decode'' err))
     | (s', None) \<Rightarrow> (Scalar s', None))"

section \<open>Elements\<close>

text \<open>
  Modelled from the spec: the point type of the external provider
  \<open>filippo.io/edwards25519\<close>, which is not part of the repository. The point arithmetic and
  the point encoding are opaque to the abstraction layer, so the provider is a parameter:
  a record of its operations over a type \<open>'p\<close> of points, equal points being equal values.
\<close>

record 'p ed_Point =
  NewIdentityPoint :: "'p"
  NewGeneratorPoint :: "'p"
  Point_Add :: "'p \<Rightarrow> 'p \<Rightarrow> 'p"
  Point_Subtract :: "'p \<Rightarrow> 'p \<Rightarrow> 'p"
  Point_Negate :: "'p \<Rightarrow> 'p"
  Point_ScalarMult :: "nat \<Rightarrow> 'p \<Rightarrow> 'p"
  Point_Equal :: "'p \<Rightarrow> 'p \<Rightarrow> int"
  Point_Bytes :: "'p \<Rightarrow> byte list"
  Point_SetBytes :: "byte list \<Rightarrow> error + 'p"

text \<open>
  Modelled from the spec: the provider contract of the spec's external interfaces, as far as
  decoding relies on it: a canonical fixed-length encoding that decodes back to the point
  it encodes, and \<open>Equal\<close> deciding equality of points.
\<close>

definition ed_Point_contract :: "'p ed_Point \<Rightarrow> bool" where
  "ed_Point_contract P =
    ((\<forall>p. Point_SetBytes P (Point_Bytes P p) = Inr p) \<and>
     (\<forall>p. length (Point_Bytes P p) = 32) \<and>
     (\<forall>p q. Point_Equal P p q = (if p = q then 1 else 0)))"

text \<open>
  A small provider that meets the contract, for instantiating statements about an arbitrary
  provider: the group of order two, the identity encoded as the byte string 1, 0, ..., 0
  and the generator as 2, 0, ..., 0.
\<close>

definition two_Point :: "bool ed_Point" where
  "two_Point =
    \<lparr> NewIdentityPoint = False,
      NewGeneratorPoint = True,
      Point_Add = (\<lambda>p q. p \<noteq> q),
      Point_Subtract = (\<lambda>p q. p \<noteq> q),
      Point_Negate = (\<lambda>p. p),
      Point_ScalarMult = (\<lambda>k p. odd k \<and> p),
      Point_Equal = (\<lambda>p q. if p = q then 1 else 0),
      Point_Bytes = (\<lambda>p. (if p then 2 else 1) # replicate 31 0),
      Point_SetBytes = (\<lambda>bs.
        if bs = 1 # replicate 31 0 then Inr False
        else if bs = 2 # replicate 31 0 then Inr True
        else Inl (ErrBackend ''edwards25519: invalid point encoding'')) \<rparr>"

subsection \<open>Package edwards25519\<close>

text \<open>
  A value of the interface \<open>internal.Element\<close>; the only backend element in the modelled
  sources is that of package edwards25519, so the failing branch of its type assertions
  (\<open>ErrCastElement\<close>) has no input here.
\<close>

datatype 'p internal_Element = Ed25519Element 'p

fun checkElement :: "'p internal_Element option \<Rightarrow> 'p res" where
  "checkElement None = Panic ErrParamNilPoint"
| "checkElement (Some (Ed25519Element ec)) = Return ec"

definition ed_Element_Base :: "'p ed_Point \<Rightarrow> 'p \<Rightarrow> 'p" where
  "ed_Element_Base P e = NewGeneratorPoint P"

definition ed_Element_Identity :: "'p ed_Point \<Rightarrow> 'p \<Rightarrow> 'p" where
  "ed_Element_Identity P e = NewIdentityPoint P"

definition ed_Element_Add :: "'p ed_Point \<Rightarrow> 'p \<Rightarrow> 'p internal_Element option \<Rightarrow> 'p res" where
  "ed_Element_Add P e element =
    (case checkElement element of
       Panic err \<Rightarrow> Panic err
     | Return ec \<Rightarrow> Return (Point_Add P e ec))"

definition ed_Element_Subtract ::
  "'p ed_Point \<Rightarrow> 'p \<Rightarrow> 'p internal_Element option \<Rightarrow> 'p res" where
  "ed_Element_Subtract P e element =
    (case checkElement element of
       Panic err \<Rightarrow> Panic err
     | Return ec \<Rightarrow> Return (Point_Subtract P e ec))"

definition ed_Element_Multiply :: "'p ed_Point \<Rightarrow> 'p \<Rightarrow> internal_Scalar option \<Rightarrow> 'p res" where
  "ed_Element_Multiply P e scalar =
    (if scalar = None then Return (ed_Element_Identity P e)
     else case ed_assert scalar of
            Panic err \<Rightarrow> Panic err
          | Return sc \<Rightarrow> Return (Point_ScalarMult P sc e))"

definition ed_Element_IsIdentity :: "'p ed_Point \<Rightarrow> 'p \<Rightarrow> bool" where
  "ed_Element_IsIdentity P e = (Point_Equal P e (NewIdentityPoint P) = 1)"

definition ed_Element_set :: "'p \<Rightarrow> 'p \<Rightarrow> 'p" where
  "ed_Element_set e element = element"

definition ed_Element_Set :: "'p ed_Point \<Rightarrow> 'p \<Rightarrow> 'p internal_Element option \<Rightarrow> 'p res" where
  "ed_Element_Set P e element =
    (case element of
       None \<Rightarrow> Return (ed_Element_Identity P e)
     | Some (Ed25519Element ec) \<Rightarrow> Return (ed_Element_set e ec))"

definition ed_Element_Encode :: "'p ed_Point \<Rightarrow> 'p \<Rightarrow> byte list" where
  "ed_Element_Encode P e = Point_Bytes P e"

definition decodeElement :: "'p ed_Point \<Rightarrow> byte list \<Rightarrow> error + 'p" where
  "decodeElement P element =
    (if length element = 0 then Inl ErrParamInvalidPointEncoding
     else case Point_SetBytes P element of
            Inl err \<Rightarrow> Inl err
          | Inr e \<Rightarrow> Inr e)"

definition ed_Element_Decode :: "'p ed_Point \<Rightarrow> 'p \<Rightarrow> byte list \<Rightarrow> 'p \<times> error option" where
  "ed_Element_Decode P e data =
    (case decodeElement P data of
       Inl err \<Rightarrow> (e, Some err)
     | Inr element \<Rightarrow>
        (if Point_Equal P element (NewIdentityPoint P) = 1
         then (e, Some (ErrWrap ''invalid edwards25519 encoding'' ErrIdentity))
         else (element, None)))"

subsection \<open>Method calls through the interface\<close>

fun internal_Element_Identity :: "'p ed_Point \<Rightarrow> 'p internal_Element \<Rightarrow> 'p internal_Element" where
  "internal_Element_Identity P (Ed25519Element e) = Ed25519Element (ed_Element_Identity P e)"

fun internal_Element_Add ::
  "'p ed_Point \<Rightarrow> 'p internal_Element \<Rightarrow> 'p internal_Element option \<Rightarrow> 'p internal_Element res"
where
  "internal_Element_Add P (Ed25519Element e) x = map_res Ed25519Element (ed_Element_Add P e x)"

fun internal_Element_Subtract ::
  "'p ed_Point \<Rightarrow> 'p internal_Element \<Rightarrow> 'p internal_Element option \<Rightarrow> 'p internal_Element res"
where
  "internal_Element_Subtract P (Ed25519Element e) x =
    map_res Ed25519Element (ed_Element_Subtract P e x)"

fun internal_Element_Multiply ::
  "'p ed_Point \<Rightarrow> 'p internal_Element \<Rightarrow> internal_Scalar option \<Rightarrow> 'p internal_Element res"
where
  "internal_Element_Multiply P (Ed25519Element e) x =
    map_res Ed25519Element (ed_Element_Multiply P e x)"

fun internal_Element_Set ::
  "'p ed_Point \<Rightarrow> 'p internal_Element \<Rightarrow> 'p internal_Element option \<Rightarrow> 'p internal_Element res"
where
  "internal_Element_Set P (Ed25519Element e) x = map_res Ed25519Element (ed_Element_Set P e x)"

fun internal_Element_IsIdentity :: "'p ed_Point \<Rightarrow> 'p internal_Element \<Rightarrow> bool" where
  "internal_Element_IsIdentity P (Ed25519Element e) = ed_Element_IsIdentity P e"

subsection \<open>Package ecc: the \<open>Element\<close> abstraction\<close>

datatype 'p Element = Element (internal_element: "'p internal_Element")

definition ecc_Element_Identity :: "'p ed_Point \<Rightarrow> 'p Element \<Rightarrow> 'p Element" where
  "ecc_Element_Identity P e = Element (internal_Element_Identity P (internal_element e))"

definition ecc_Element_Add ::
  "'p ed_Point \<Rightarrow> 'p Element \<Rightarrow> 'p Element option \<Rightarrow> 'p Element res" where
  "ecc_Element_Add P e element =
    (case element of
       None \<Rightarrow> Return e
     | Some x \<Rightarrow>
        map_res Element (internal_Element_Add P (internal_element e) (Some (internal_element x))))"

definition ecc_Element_Subtract ::
  "'p ed_Point \<Rightarrow> 'p Element \<Rightarrow> 'p Element option \<Rightarrow> 'p Element res" where
  "ecc_Element_Subtract P e element =
    (case element of
       None \<Rightarrow> Return e
     | Some x \<Rightarrow>
        map_res Element
          (internal_Element_Subtract P (internal_element e) (Some (internal_element x))))"

definition ecc_Element_Multiply ::
  "'p ed_Point \<Rightarrow> 'p Element \<Rightarrow> Scalar option \<Rightarrow> 'p Element res" where
  "ecc_Element_Multiply P e scalar =
    (case scalar of
       None \<Rightarrow> Return (Element (internal_Element_Identity P (internal_element e)))
     | Some x \<Rightarrow>
        map_res Element (internal_Element_Multiply P (internal_element e) (Some (internal x))))"

definition ecc_Element_IsIdentity :: "'p ed_Point \<Rightarrow> 'p Element \<Rightarrow> bool" where
  "ecc_Element_IsIdentity P e = internal_Element_IsIdentity P (internal_element e)"

definition ecc_Element_Set ::
  "'p ed_Point \<Rightarrow> 'p Element \<Rightarrow> 'p Element option \<Rightarrow> 'p Element res" where
  "ecc_Element_Set P e element =
    (case element of
       None \<Rightarrow> map_res Element (internal_Element_Set P (internal_element e) None)
     | Some x \<Rightarrow>
        map_res Element (internal_Element_Set P (internal_element e) (Some (internal_element x))))"

section \<open>Byte strings and integers\<close>

lemma length_le_bytes: "length (le_bytes n v) = n"
  by (induction n arbitrary: v) auto

lemma le_val_append: "le_val (xs @ ys) = le_val xs + 256 ^ length xs * le_val ys"
  by (induction xs) (auto simp: algebra_simps)

lemma le_val_bound: "le_val bs < 256 ^ length bs"
proof (induction bs)
  case Nil
  then show ?case by simp
next
  case (Cons b bs)
  have "unat b < 256" using unsigned_less [of b] by simp
  moreover have "le_val bs + 1 \<le> 256 ^ length bs" using Cons by simp
  then have "256 * (le_val bs + 1) \<le> 256 * 256 ^ length bs" by simp
  ultimately show ?case by simp
qed

lemma unat_byte_of_nat: "unat (of_nat (v mod 256) :: byte) = v mod 256"
  by (simp add: unat_of_nat)

lemma le_val_le_bytes: "le_val (le_bytes n v) = v mod 256 ^ n"
proof (induction n arbitrary: v)
  case 0
  then show ?case by simp
next
  case (Suc n)
  have "v mod (256 * 256 ^ n) = v mod 256 + 256 * (v div 256 mod 256 ^ n)"
    by (simp add: mod_mult2_eq)
  with Suc show ?case by (simp add: unat_byte_of_nat)
qed

lemma le_bytes_le_val: "length bs = n \<Longrightarrow> le_bytes n (le_val bs) = bs"
proof (induction bs arbitrary: n)
  case Nil
  then show ?case by simp
next
  case (Cons b bs)
  then obtain m where n: "n = Suc m" and m: "length bs = m" by (cases n) auto
  have ub: "unat b < 256" using unsigned_less [of b] by simp
  then have "(unat b + 256 * le_val bs) mod 256 = unat b" by simp
  moreover have "(unat b + 256 * le_val bs) div 256 = le_val bs" using ub by simp
  ultimately show ?case using Cons.IH [OF m] n by simp
qed

lemma le_bytes_zero: "le_bytes n 0 = replicate n 0"
  by (induction n) auto

lemma le_val_replicate_zero: "le_val (replicate n 0) = 0"
  by (induction n) auto

section \<open>The ladder of \<open>Pow\<close>\<close>

lemma mod_order_mult_power:
  "(s ^ i mod order * (s ^ j mod order)) mod order = s ^ (i + j) mod order"
  by (simp add: mod_mult_eq power_add)

lemma pow_step_inv:
  "pow_step b j (s ^ k mod order, s ^ Suc k mod order) =
     (s ^ (2 * k + of_bool (bit b j)) mod order, s ^ Suc (2 * k + of_bool (bit b j)) mod order)"
proof (cases "bit b j")
  case True
  have 1: "k + Suc k = Suc (2 * k)" and 2: "Suc k + Suc k = Suc (Suc (2 * k))" by simp_all
  from True show ?thesis
    unfolding pow_step_def multiply_def square_def sc_Multiply_def
    by (simp add: and_exp_eq_0_iff_not_bit Let_def mod_order_mult_power 1 2
        del: power_Suc mult_Suc add_Suc add_Suc_right; simp)
next
  case False
  have 1: "Suc k + k = Suc (2 * k)" and 2: "k + k = 2 * k" by simp_all
  from False show ?thesis
    unfolding pow_step_def multiply_def square_def sc_Multiply_def
    by (simp add: and_exp_eq_0_iff_not_bit Let_def mod_order_mult_power 1 2
        del: power_Suc mult_Suc add_Suc add_Suc_right; simp)
qed

lemma unat_mod_Suc_exp:
  "unat (b :: byte) mod 2 ^ Suc j = 2 ^ j * of_bool (bit b j) + unat b mod 2 ^ j"
  using take_bit_Suc_from_most [of j "unat b"]
  by (simp add: take_bit_eq_mod bit_unsigned_iff)

lemma pow_bits_inv:
  "pow_bits b n (s ^ k mod order, s ^ Suc k mod order) =
     (s ^ (k * 2 ^ n + unat b mod 2 ^ n) mod order,
      s ^ Suc (k * 2 ^ n + unat b mod 2 ^ n) mod order)"
proof (induction n arbitrary: k)
  case 0
  then show ?case by simp
next
  case (Suc n)
  have "(2 * k + of_bool (bit b n)) * 2 ^ n + unat b mod 2 ^ n
          = k * 2 ^ Suc n + unat b mod 2 ^ Suc n"
    by (simp only: unat_mod_Suc_exp) (simp add: algebra_simps)
  then show ?case
    by (simp only: pow_bits.simps pow_step_inv Suc.IH)
qed

lemma pow_bits_byte:
  "pow_bits b 8 (s ^ k mod order, s ^ Suc k mod order) =
     (s ^ (k * 256 + unat b) mod order, s ^ Suc (k * 256 + unat b) mod order)"
proof -
  have "unat b < 256" using unsigned_less [of b] by simp
  then have "unat b mod 2 ^ 8 = unat b" by simp
  then show ?thesis using pow_bits_inv [of b 8 s k] by simp
qed

lemma pow_bytes_inv:
  "n \<le> length bytes \<Longrightarrow>
   pow_bytes bytes n (s ^ k mod order, s ^ Suc k mod order) =
     (s ^ (k * 256 ^ n + le_val (take n bytes)) mod order,
      s ^ Suc (k * 256 ^ n + le_val (take n bytes)) mod order)"
proof (induction n arbitrary: k)
  case 0
  then show ?case by simp
next
  case (Suc n)
  then have n: "n < length bytes" by simp
  have "(k * 256 + unat (bytes ! n)) * 256 ^ n + le_val (take n bytes)
          = k * 256 ^ Suc n + le_val (take (Suc n) bytes)"
    using n by (simp add: take_Suc_conv_app_nth le_val_append algebra_simps)
  moreover have "n \<le> length bytes" using n by simp
  ultimately show ?case
    by (simp only: pow_bytes.simps pow_bits_byte Suc.IH)
qed

lemma getMSByte_loop_snoc:
  "getMSByte_loop msb i (bs @ [b]) =
     (if b \<noteq> 0 then i + length bs else getMSByte_loop msb i bs)"
  by (induction bs arbitrary: msb i) auto

lemma getMSByte_loop_zeros: "getMSByte_loop msb i (replicate n 0) = msb"
  by (induction n arbitrary: i) auto

lemma getMSByte_spec:
  "le_val bs \<noteq> 0 \<Longrightarrow>
   getMSByte bs < length bs \<and> bs ! getMSByte bs \<noteq> 0 \<and>
   le_val (take (Suc (getMSByte bs)) bs) = le_val bs"
proof (induction bs rule: rev_induct)
  case Nil
  then show ?case by simp
next
  case (snoc b bs)
  show ?case
  proof (cases "b = 0")
    case True
    with snoc.prems have "le_val bs \<noteq> 0" by (simp add: le_val_append)
    from snoc.IH [OF this] True show ?thesis
      by (simp add: getMSByte_def getMSByte_loop_snoc nth_append le_val_append)
  next
    case False
    then show ?thesis
      by (simp add: getMSByte_def getMSByte_loop_snoc)
  qed
qed

lemma getMSBit_loop_spec:
  "b \<noteq> 0 \<Longrightarrow> unat b < 2 ^ n \<Longrightarrow>
   bit b (getMSBit_loop b n) \<and> unat b < 2 ^ Suc (getMSBit_loop b n)"
proof (induction n)
  case 0
  then have "unat b = 0" by simp
  with 0 show ?case by (simp add: unat_eq_0)
next
  case (Suc n)
  show ?case
  proof (cases "bit b n")
    case True
    with Suc.prems show ?thesis by (simp add: and_exp_eq_0_iff_not_bit)
  next
    case False
    have "unat b mod 2 ^ Suc n = unat b" using Suc.prems by simp
    with False unat_mod_Suc_exp [of b n] have "unat b = unat b mod 2 ^ n" by simp
    then have "unat b < 2 ^ n" by (metis mod_less_divisor zero_less_numeral zero_less_power)
    from Suc.IH [OF Suc.prems(1) this] False show ?thesis
      by (simp add: and_exp_eq_0_iff_not_bit)
  qed
qed

lemma getMSBit_spec:
  assumes "b \<noteq> 0"
  shows "2 ^ getMSBit b + unat b mod 2 ^ getMSBit b = unat b"
proof -
  have "unat b < 2 ^ 8" using unsigned_less [of b] by simp
  from getMSBit_loop_spec [OF assms this]
  have 1: "bit b (getMSBit b)" and 2: "unat b < 2 ^ Suc (getMSBit b)"
    by (simp_all add: getMSBit_def)
  from 2 have "unat b mod 2 ^ Suc (getMSBit b) = unat b" by simp
  with 1 unat_mod_Suc_exp [of b "getMSBit b"] show ?thesis by simp
qed

lemma pow_ladder_correct:
  assumes "le_val bytes \<noteq> 0"
  shows "pow_ladder bytes (s ^ 1 mod order, s ^ Suc 1 mod order) =
           Return (s ^ le_val bytes mod order, s ^ Suc (le_val bytes) mod order)"
proof -
  define m where "m = getMSByte bytes"
  from getMSByte_spec [OF assms]
  have m: "m < length bytes" and nz: "bytes ! m \<noteq> 0"
    and v: "le_val (take (Suc m) bytes) = le_val bytes"
    by (simp_all add: m_def)
  have "1 * 2 ^ getMSBit (bytes ! m) + unat (bytes ! m) mod 2 ^ getMSBit (bytes ! m)
          = unat (bytes ! m)"
    using getMSBit_spec [OF nz] by simp
  then have top: "pow_bits (bytes ! m) (getMSBit (bytes ! m)) (s ^ 1 mod order, s ^ Suc 1 mod order)
      = (s ^ unat (bytes ! m) mod order, s ^ Suc (unat (bytes ! m)) mod order)"
    by (simp only: pow_bits_inv)
  have "unat (bytes ! m) * 256 ^ m + le_val (take m bytes) = le_val bytes"
    using m v by (simp add: take_Suc_conv_app_nth le_val_append algebra_simps)
  moreover have "m \<le> length bytes" using m by simp
  ultimately have low: "pow_bytes bytes m (s ^ unat (bytes ! m) mod order, s ^ Suc (unat (bytes ! m)) mod order)
      = (s ^ le_val bytes mod order, s ^ Suc (le_val bytes) mod order)"
    by (simp only: pow_bytes_inv)
  have "pow_ladder bytes (s ^ 1 mod order, s ^ Suc 1 mod order) =
      Return (pow_bytes bytes m (pow_bits (bytes ! m) (getMSBit (bytes ! m))
         (s ^ 1 mod order, s ^ Suc 1 mod order)))"
    using m unfolding pow_ladder_def m_def [symmetric] by (simp add: Let_def)
  then show ?thesis by (simp only: top low)
qed

section \<open>Modular exponentiation\<close>

lemma order_lt_256_32: "order < 256 ^ 32"
  by (simp add: order_def)

lemma le_val_sc_Bytes: "e < order \<Longrightarrow> le_val (sc_Bytes e) = e"
  using order_lt_256_32 by (simp add: sc_Bytes_def le_val_le_bytes)

lemma length_sc_Bytes: "length (sc_Bytes e) = 32"
  by (simp add: sc_Bytes_def length_le_bytes)

lemma sc_Bytes_zero: "sc_Bytes 0 = replicate 32 0"
  by (simp add: sc_Bytes_def le_bytes_zero)

lemma sc_SetCanonicalBytes_sc_Bytes:
  "e < order \<Longrightarrow> sc_SetCanonicalBytes (sc_Bytes e) = Inr e"
  by (simp add: sc_SetCanonicalBytes_def length_sc_Bytes le_val_sc_Bytes)

lemma le_val_one: "le_val (1 # replicate n 0) = 1"
  by (simp add: le_val_replicate_zero)

lemma ed_scOne_eq: "ed_scOne = 1"
  by (simp add: ed_scOne_def ed_Decode_def ed_decodeScalar_def canonicalEncodingLength_def
      sc_SetCanonicalBytes_def le_val_replicate_zero order_def)

lemma rist_scOne_eq: "rist_scOne = 1"
  by (simp add: rist_scOne_def rist_Decode_def rist_decodeScalar_def canonicalEncodingLength_def
      sc_SetCanonicalBytes_def le_val_replicate_zero order_def)

lemma ed_One_eq: "ed_One s = 1"
  by (simp add: ed_One_def ed_set_def ed_scOne_eq)

lemma rist_One_eq: "rist_One s = 1"
  by (simp add: rist_One_def rist_set_def rist_scZero_def sc_NewScalar_def sc_Add_def
      rist_scOne_eq order_def)

lemma ed_IsZero_iff: "ed_IsZero s \<longleftrightarrow> s = 0"
  by (simp add: ed_IsZero_def sc_Equal_def sc_NewScalar_def)

lemma rist_IsZero_iff: "rist_IsZero s \<longleftrightarrow> s = 0"
  by (simp add: rist_IsZero_def rist_scZero_def sc_Equal_def sc_NewScalar_def)

lemma getMSBit_zero: "getMSBit_loop 0 n = 0"
  by (induction n) auto

lemma pow_ladder_zeros:
  "0 < n \<Longrightarrow> pow_ladder (replicate n 0) st = Return st"
  by (simp add: pow_ladder_def getMSByte_def getMSByte_loop_zeros getMSBit_def getMSBit_zero)

lemma ed_Pow_correct:
  assumes "s < order" "e < order" "e \<noteq> 0"
  shows "ed_Pow s (Some (Ed25519Scalar e)) = Return (s ^ e mod order)"
proof -
  have nz: "le_val (sc_Bytes e) \<noteq> 0" using assms by (simp add: le_val_sc_Bytes)
  have init: "(ed_copy s, square (ed_copy s)) = (s ^ 1 mod order, s ^ Suc 1 mod order)"
    using assms(1) by (simp add: ed_copy_def square_def sc_Multiply_def)
  have "pow_ladder (sc_Bytes e) (ed_copy s, square (ed_copy s)) =
          Return (s ^ e mod order, s ^ Suc e mod order)"
    unfolding init using pow_ladder_correct [OF nz, of s] assms(2)
    by (simp only: le_val_sc_Bytes)
  then show ?thesis
    using assms(3) by (simp add: ed_Pow_def ed_IsZero_iff ed_set_def Let_def)
qed

lemma rist_Pow_correct:
  assumes "s < order" "e < order" "e \<noteq> 0"
  shows "rist_Pow s (Some (Ristretto255Scalar e)) = Return (s ^ e mod order)"
proof -
  have nz: "le_val (sc_Bytes e) \<noteq> 0" using assms by (simp add: le_val_sc_Bytes)
  have init: "(rist_copy s, square (rist_copy s)) = (s ^ 1 mod order, s ^ Suc 1 mod order)"
    using assms(1)
    by (simp add: rist_copy_def square_def sc_Multiply_def sc_Add_def sc_NewScalar_def)
  have "pow_ladder (sc_Bytes e) (rist_copy s, square (rist_copy s)) =
          Return (s ^ e mod order, s ^ Suc e mod order)"
    unfolding init using pow_ladder_correct [OF nz, of s] assms(2)
    by (simp only: le_val_sc_Bytes)
  then show ?thesis
    using assms(3)
    by (simp add: rist_Pow_def rist_Encode_def rist_IsZero_iff rist_set_def rist_scZero_def
        sc_Add_def sc_NewScalar_def Let_def)
qed

lemma ed_Pow_zero: "ed_Pow s (Some (Ed25519Scalar 0)) = Return 1"
  by (simp add: ed_Pow_def sc_Bytes_zero pow_ladder_zeros ed_IsZero_iff ed_One_eq ed_set_def
      Let_def)

lemma rist_Pow_zero: "rist_Pow s (Some (Ristretto255Scalar 0)) = Return 1"
  by (simp add: rist_Pow_def rist_Encode_def sc_Bytes_zero pow_ladder_zeros rist_IsZero_iff
      rist_One_eq rist_set_def rist_scZero_def sc_Add_def sc_NewScalar_def order_def Let_def)

lemma secp_Pow_zero: "secp_Pow s (Some (Secp256k1Scalar 0)) = Return 1"
  by (simp add: secp_Pow_def secp_IsZero_def secp_One_def)

lemma secp_Pow_one: "secp_Pow s (Some (Secp256k1Scalar (Suc 0))) = Return s"
  by (simp add: secp_Pow_def secp_IsZero_def secp_One_def secp_Equal_def)

text \<open>
  C3. For every scalar \<open>s\<close> and every non-zero exponent \<open>e\<close> of the same group (both
  reduced), \<open>Pow\<close> of packages edwards25519, ristretto and secp256k1, and \<open>Pow\<close> of
  package ecc on top of them, set \<open>s\<close> to \<open>s ^ e\<close> modulo the group order. In packages
  edwards25519 and ristretto the two-accumulator ladder that starts below the exponent's
  highest set bit computes modular exponentiation; package secp256k1 returns the receiver on
  exponent one and otherwise hands the exponentiation to its provider.
\<close>

lemma secp_Pow_correct:
  assumes "s < secp_order" and "e \<noteq> 0"
  shows "secp_Pow s (Some (Secp256k1Scalar e)) = Return (s ^ e mod secp_order)"
proof (cases "e = 1")
  case True
  with assms(1) show ?thesis
    by (simp add: secp_Pow_def secp_IsZero_def secp_One_def secp_Equal_def)
next
  case False
  with assms(2) show ?thesis
    by (simp add: secp_Pow_def secp_IsZero_def secp_One_def secp_Equal_def secp_lib_Pow_def)
qed

theorem Pow_square_and_multiply:
  "(s < order \<and> e < order \<and> e \<noteq> 0 \<longrightarrow>
      ed_Pow s (Some (Ed25519Scalar e)) = Return (s ^ e mod order) \<and>
      rist_Pow s (Some (Ristretto255Scalar e)) = Return (s ^ e mod order) \<and>
      ecc_Pow (Scalar (Ed25519Scalar s)) (Some (Scalar (Ed25519Scalar e))) =
        Return (Scalar (Ed25519Scalar (s ^ e mod order))) \<and>
      ecc_Pow (Scalar (Ristretto255Scalar s)) (Some (Scalar (Ristretto255Scalar e))) =
        Return (Scalar (Ristretto255Scalar (s ^ e mod order)))) \<and>
   (s < secp_order \<and> e < secp_order \<and> e \<noteq> 0 \<longrightarrow>
      secp_Pow s (Some (Secp256k1Scalar e)) = Return (s ^ e mod secp_order) \<and>
      ecc_Pow (Scalar (Secp256k1Scalar s)) (Some (Scalar (Secp256k1Scalar e))) =
        Return (Scalar (Secp256k1Scalar (s ^ e mod secp_order))))"
  by (simp add: ecc_Pow_def ed_Pow_correct rist_Pow_correct secp_Pow_correct)

theorem Pow_square_and_multiply_witness:
  "ed_Pow 5 (Some (Ed25519Scalar 7)) = Return 78125 \<and>
   rist_Pow 5 (Some (Ristretto255Scalar 7)) = Return 78125 \<and>
   ecc_Pow (Scalar (Ed25519Scalar 5)) (Some (Scalar (Ed25519Scalar 7))) =
     Return (Scalar (Ed25519Scalar 78125)) \<and>
   ecc_Pow (Scalar (Ristretto255Scalar 5)) (Some (Scalar (Ristretto255Scalar 7))) =
     Return (Scalar (Ristretto255Scalar 78125)) \<and>
   secp_Pow 5 (Some (Secp256k1Scalar 7)) = Return 78125 \<and>
   ecc_Pow (Scalar (Secp256k1Scalar 5)) (Some (Scalar (Secp256k1Scalar 7))) =
     Return (Scalar (Secp256k1Scalar 78125)) \<and>
   secp_Pow 115792089237316195423570985008687907852837564279074904382605163141518161494336
     (Some (Secp256k1Scalar 2)) = Return 1"
proof -
  have h: "(5::nat) < order \<and> (7::nat) < order \<and> (7::nat) \<noteq> 0"
    by (simp add: order_def)
  have k: "(5::nat) < secp_order \<and> (7::nat) < secp_order \<and> (7::nat) \<noteq> 0"
    by (simp add: secp_order_def)
  have m: "(115792089237316195423570985008687907852837564279074904382605163141518161494336::nat)
             < secp_order \<and> (2::nat) < secp_order \<and> (2::nat) \<noteq> 0"
    by (simp add: secp_order_def)
  have v: "(5::nat) ^ 7 mod order = 78125" by (simp add: order_def)
  have w: "(5::nat) ^ 7 mod secp_order = 78125" by (simp add: secp_order_def)
  have x: "(115792089237316195423570985008687907852837564279074904382605163141518161494336::nat)
             ^ 2 mod secp_order = 1"
    by (simp add: secp_order_def)
  have a: "ed_Pow 5 (Some (Ed25519Scalar 7)) = Return 78125 \<and>
      rist_Pow 5 (Some (Ristretto255Scalar 7)) = Return 78125 \<and>
      ecc_Pow (Scalar (Ed25519Scalar 5)) (Some (Scalar (Ed25519Scalar 7))) =
        Return (Scalar (Ed25519Scalar 78125)) \<and>
      ecc_Pow (Scalar (Ristretto255Scalar 5)) (Some (Scalar (Ristretto255Scalar 7))) =
        Return (Scalar (Ristretto255Scalar 78125))"
    using Pow_square_and_multiply [of 5 7, THEN conjunct1, THEN mp, OF h] by (simp only: v)
  have b: "secp_Pow 5 (Some (Secp256k1Scalar 7)) = Return 78125 \<and>
      ecc_Pow (Scalar (Secp256k1Scalar 5)) (Some (Scalar (Secp256k1Scalar 7))) =
        Return (Scalar (Secp256k1Scalar 78125))"
    using Pow_square_and_multiply [of 5 7, THEN conjunct2, THEN mp, OF k] by (simp only: w)
  have c: "secp_Pow 115792089237316195423570985008687907852837564279074904382605163141518161494336
      (Some (Secp256k1Scalar 2)) = Return 1"
    using Pow_square_and_multiply [of _ 2, THEN conjunct2, THEN mp, OF m, THEN conjunct1]
    by (simp only: x)
  from a b c show ?thesis by (simp only: simp_thms)
qed

text \<open>
  C4. For every reduced scalar \<open>s\<close> of any backend, \<open>s.Pow(nil)\<close> and \<open>s.Pow(zero)\<close> set
  \<open>s\<close> to one, also when \<open>s\<close> is zero, and \<open>s.Pow(one)\<close> leaves \<open>s\<close> unchanged.
\<close>

theorem Pow_nil_zero_one:
  assumes "in_range (internal s)"
  shows "ecc_Pow s None = Return (ecc_One s) \<and>
         ecc_Pow s (Some (ecc_Zero s)) = Return (ecc_One s) \<and>
         ecc_Pow s (Some (ecc_One s)) = Return s \<and>
         ecc_Pow (ecc_Zero s) (Some (ecc_Zero s)) = Return (ecc_One s)"
proof (cases s)
  case (Scalar x)
  show ?thesis
  proof (cases x)
    case (Ed25519Scalar v)
    have "(1::nat) < order" by (simp add: order_def)
    with assms Scalar Ed25519Scalar show ?thesis
      using ed_Pow_correct [of v 1]
      by (simp add: ecc_Pow_def ecc_One_def ecc_Zero_def ed_One_eq ed_Zero_def sc_NewScalar_def
          ed_Pow_zero)
  next
    case (Ristretto255Scalar v)
    have "(1::nat) < order" by (simp add: order_def)
    with assms Scalar Ristretto255Scalar show ?thesis
      using rist_Pow_correct [of v 1]
      by (simp add: ecc_Pow_def ecc_One_def ecc_Zero_def rist_One_eq rist_Zero_def rist_Pow_zero)
  next
    case (Secp256k1Scalar v)
    with Scalar show ?thesis
      by (simp add: ecc_Pow_def ecc_One_def ecc_Zero_def secp_One_def secp_Zero_def
          secp_Pow_zero secp_Pow_one)
  qed
qed

theorem Pow_nil_zero_one_witness:
  "ecc_Pow (Scalar (Ed25519Scalar 5)) None = Return (Scalar (Ed25519Scalar 1)) \<and>
   ecc_Pow (Scalar (Ed25519Scalar 5)) (Some (Scalar (Ed25519Scalar 0))) =
     Return (Scalar (Ed25519Scalar 1)) \<and>
   ecc_Pow (Scalar (Ed25519Scalar 5)) (Some (Scalar (Ed25519Scalar 1))) =
     Return (Scalar (Ed25519Scalar 5)) \<and>
   ecc_Pow (Scalar (Ed25519Scalar 0)) (Some (Scalar (Ed25519Scalar 0))) =
     Return (Scalar (Ed25519Scalar 1))"
proof -
  have "in_range (internal (Scalar (Ed25519Scalar 5)))" by (simp add: order_def)
  from Pow_nil_zero_one [OF this] show ?thesis
    by (simp add: ecc_One_def ecc_Zero_def ed_One_eq ed_Zero_def sc_NewScalar_def)
qed

section \<open>Magnitude comparison and decoding\<close>

lemma LessOrEqual_loop_iff:
  "LessOrEqual_loop ienc jenc n res \<longleftrightarrow> res \<or> (\<exists>i<n. ienc ! i > jenc ! i)"
  by (induction n arbitrary: res) (auto simp: less_Suc_eq)

lemma LessOrEqual_enc_pointwise:
  "length ienc = length jenc \<Longrightarrow>
   LessOrEqual_enc ienc jenc = Return (if \<exists>i<length ienc. ienc ! i > jenc ! i then 0 else 1)"
  by (simp add: LessOrEqual_enc_def LessOrEqual_loop_iff Let_def)

text \<open>
  C1. \<open>LessOrEqual\<close> of packages edwards25519 and ristretto answers 0 as soon as any
  byte of the receiver's encoding exceeds the byte of the argument's at the same position.
  On the scalars 255 and 256 it answers 0 in both directions, although 255 is at most 256:
  the comparison is not the order of the integer values and is not total.
\<close>

theorem LessOrEqual_255_256:
  "(255::nat) \<le> 256 \<and>
   ed_LessOrEqual 255 (Some (Ed25519Scalar 256)) = Return 0 \<and>
   rist_LessOrEqual 255 (Some (Ristretto255Scalar 256)) = Return 0 \<and>
   ecc_LessOrEqual (Scalar (Ed25519Scalar 255)) (Some (Scalar (Ed25519Scalar 256))) = Return False \<and>
   ecc_LessOrEqual (Scalar (Ed25519Scalar 256)) (Some (Scalar (Ed25519Scalar 255))) = Return False"
  by code_simp

lemma le_val_replicate_255: "le_val (replicate n 255) = 256 ^ n - 1"
proof (induction n)
  case 0
  then show ?case by simp
next
  case (Suc n)
  define m :: nat where "m = 256 ^ n"
  have "1 \<le> m" by (simp add: m_def)
  then have "255 + 256 * (m - 1) = 256 * m - 1" by arith
  with Suc show ?case by (simp add: m_def)
qed

lemma le_val_orderBytes: "le_val orderBytes = order"
  by (simp add: orderBytes_def order_def)

lemma ed_Decode_cases:
  "ed_Decode s d =
    (if d = [] then (s, Some ErrParamNilScalar)
     else if length d \<noteq> 32 then (s, Some ErrParamScalarLength)
     else if order \<le> le_val d then (s, Some (ErrBackend ''invalid scalar encoding''))
     else (le_val d, None))"
  by (simp add: ed_Decode_def ed_decodeScalar_def canonicalEncodingLength_def
      sc_SetCanonicalBytes_def)

lemma rist_Decode_cases:
  "rist_Decode s d =
    (if d = [] then (s, Some ErrParamNilScalar)
     else if length d \<noteq> 32 then (s, Some ErrParamScalarLength)
     else if order \<le> le_val d then (s, Some (ErrBackend ''invalid scalar encoding''))
     else (le_val d, None))"
  by (simp add: rist_Decode_def rist_decodeScalar_def canonicalEncodingLength_def
      sc_SetCanonicalBytes_def)

lemma secp_Decode_cases:
  "secp_Decode s d =
    (if length d \<noteq> 32 then (s, Some (ErrBackend ''invalid scalar length''))
     else if secp_order \<le> be_val d then (s, Some ErrParamScalarInvalidEncoding)
     else (be_val d, None))"
  by (simp add: secp_Decode_def secp_lib_Decode_def)

text \<open>
  C6, at the empty input: its length differs from the canonical scalar length, and
  \<open>Decode\<close> of packages edwards25519 and ristretto fails with \<open>ErrParamNilScalar\<close>, not with
  the wrong-length error \<open>ErrParamScalarLength\<close>.
\<close>

theorem Decode_empty_input:
  "length ([] :: byte list) \<noteq> canonicalEncodingLength \<and>
   ed_Decode 0 [] = (0, Some ErrParamNilScalar) \<and>
   snd (ed_Decode 0 []) \<noteq> Some ErrParamScalarLength \<and>
   rist_Decode 0 [] = (0, Some ErrParamNilScalar) \<and>
   ecc_Decode (Scalar (Ed25519Scalar 0)) [] =
     (Scalar (Ed25519Scalar 0), Some (ErrWrap ''scalar Decode'' ErrParamNilScalar))"
  by (simp add: ed_Decode_cases rist_Decode_cases ecc_Decode_def canonicalEncodingLength_def)

text \<open>
  C6, amended. \<open>Decode\<close> of packages edwards25519 and ristretto fails with
  \<open>ErrParamNilScalar\<close> on the empty input, with \<open>ErrParamScalarLength\<close> on every non-empty
  input whose length differs from the canonical scalar length, and with the provider's
  invalid-encoding error on every input of the canonical length whose value is not below
  the group order; \<open>Decode\<close> of package secp256k1 fails with
  \<open>ErrParamScalarInvalidEncoding\<close> on every input of the canonical length whose value is
  not below the group order. In all three packages a failing \<open>Decode\<close> leaves the
  receiver unchanged.
\<close>

theorem Decode_rejects:
  "(d = [] \<longrightarrow>
      ed_Decode s d = (s, Some ErrParamNilScalar) \<and>
      rist_Decode s d = (s, Some ErrParamNilScalar)) \<and>
   (d \<noteq> [] \<and> length d \<noteq> canonicalEncodingLength \<longrightarrow>
      ed_Decode s d = (s, Some ErrParamScalarLength) \<and>
      rist_Decode s d = (s, Some ErrParamScalarLength)) \<and>
   (length d = canonicalEncodingLength \<and> order \<le> le_val d \<longrightarrow>
      ed_Decode s d = (s, Some (ErrBackend ''invalid scalar encoding'')) \<and>
      rist_Decode s d = (s, Some (ErrBackend ''invalid scalar encoding''))) \<and>
   (length d = scalarLength \<and> secp_order \<le> be_val d \<longrightarrow>
      secp_Decode s d = (s, Some ErrParamScalarInvalidEncoding)) \<and>
   (snd (ed_Decode s d) \<noteq> None \<longrightarrow> fst (ed_Decode s d) = s) \<and>
   (snd (rist_Decode s d) \<noteq> None \<longrightarrow> fst (rist_Decode s d) = s) \<and>
   (snd (secp_Decode s d) \<noteq> None \<longrightarrow> fst (secp_Decode s d) = s)"
  by (auto simp: ed_Decode_cases rist_Decode_cases secp_Decode_cases
      canonicalEncodingLength_def scalarLength_def)

theorem Decode_rejects_witness:
  "ed_Decode 7 [] = (7, Some ErrParamNilScalar) \<and>
   ed_Decode 7 [0, 1] = (7, Some ErrParamScalarLength) \<and>
   ed_Decode 7 orderBytes = (7, Some (ErrBackend ''invalid scalar encoding'')) \<and>
   secp_Decode 7 (replicate 32 255) = (7, Some ErrParamScalarInvalidEncoding) \<and>
   fst (rist_Decode 7 [0, 1]) = 7"
proof -
  have 1: "length orderBytes = canonicalEncodingLength \<and> order \<le> le_val orderBytes"
    by (simp add: le_val_orderBytes) (simp add: orderBytes_def canonicalEncodingLength_def)
  have 2: "length (replicate 32 (255::byte)) = scalarLength \<and>
      secp_order \<le> be_val (replicate 32 255)"
    by (simp add: scalarLength_def be_val_def secp_order_def le_val_replicate_255)
  have 3: "[0, 1 :: byte] \<noteq> [] \<and> length [0, 1 :: byte] \<noteq> canonicalEncodingLength"
    by (simp add: canonicalEncodingLength_def)
  have 4: "snd (rist_Decode 7 [0, 1]) \<noteq> None"
    by (simp add: rist_Decode_cases)
  have a: "ed_Decode 7 [] = (7, Some ErrParamNilScalar)"
    using Decode_rejects [of "[]" 7] by simp
  have b: "ed_Decode 7 [0, 1] = (7, Some ErrParamScalarLength)"
    using Decode_rejects [of "[0, 1]" 7] 3 by simp
  have c: "ed_Decode 7 orderBytes = (7, Some (ErrBackend ''invalid scalar encoding''))"
    using Decode_rejects [of orderBytes 7] 1 by simp
  have d: "secp_Decode 7 (replicate 32 255) = (7, Some ErrParamScalarInvalidEncoding)"
    using Decode_rejects [of "replicate 32 255" 7] 2 by simp
  have e: "fst (rist_Decode 7 [0, 1]) = 7"
    using Decode_rejects [of "[0, 1]" 7] 4 by simp
  from a b c d e show ?thesis by simp
qed


section \<open>Encoding round trip\<close>

lemma secp_order_lt_256_32: "secp_order < 256 ^ 32"
  by (simp add: secp_order_def)

lemma be_val_be_bytes: "be_val (be_bytes n v) = v mod 256 ^ n"
  by (simp add: be_val_def be_bytes_def le_val_le_bytes)

lemma length_be_bytes: "length (be_bytes n v) = n"
  by (simp add: be_bytes_def length_le_bytes)

lemma ed_Decode_Encode: "s < order \<Longrightarrow> ed_Decode r (ed_Encode s) = (s, None)"
  using length_sc_Bytes [of s]
  by (auto simp: ed_Decode_cases ed_Encode_def le_val_sc_Bytes)

lemma rist_Decode_Encode: "s < order \<Longrightarrow> rist_Decode r (rist_Encode s) = (s, None)"
  using length_sc_Bytes [of s]
  by (auto simp: rist_Decode_cases rist_Encode_def le_val_sc_Bytes)

lemma secp_Decode_Encode: "s < secp_order \<Longrightarrow> secp_Decode r (secp_Encode s) = (s, None)"
  using secp_order_lt_256_32
  by (simp add: secp_Decode_cases secp_Encode_def secp_lib_Encode_def length_be_bytes
      be_val_be_bytes)

lemma length_ed_Encode: "length (ed_Encode s) = 32"
  by (simp add: ed_Encode_def length_sc_Bytes)

lemma length_rist_Encode: "length (rist_Encode s) = 32"
  by (simp add: rist_Encode_def length_sc_Bytes)

lemma length_secp_Encode: "length (secp_Encode s) = 32"
  by (simp add: secp_Encode_def secp_lib_Encode_def length_be_bytes)

text \<open>
  C7. For every reduced scalar \<open>s\<close> of a modelled backend and every receiver \<open>r\<close> of
  the same group, \<open>r.Decode(s.Encode())\<close> succeeds and sets \<open>r\<close> to \<open>s\<close>, and the
  encoding of \<open>s\<close> has exactly \<open>ScalarLength\<close> bytes.
\<close>

theorem Scalar_Encode_Decode_roundtrip:
  assumes "in_range (internal s)" and "ecc_Group r = ecc_Group s"
  shows "ecc_Decode r (ecc_Encode s) = (s, None) \<and>
         length (ecc_Encode s) = ScalarLength (internal s)"
proof (cases s)
  case s: (Scalar x)
  obtain y where r: "r = Scalar y" by (cases r)
  show ?thesis
  proof (cases x)
    case (Ed25519Scalar v)
    with assms s r obtain w where "y = Ed25519Scalar w"
      by (cases y) (simp_all add: ecc_Group_def)
    with assms s r Ed25519Scalar show ?thesis
      by (simp add: ecc_Decode_def ecc_Encode_def ed_Decode_Encode length_ed_Encode
          canonicalEncodingLength_def)
  next
    case (Ristretto255Scalar v)
    with assms s r obtain w where "y = Ristretto255Scalar w"
      by (cases y) (simp_all add: ecc_Group_def)
    with assms s r Ristretto255Scalar show ?thesis
      by (simp add: ecc_Decode_def ecc_Encode_def rist_Decode_Encode length_rist_Encode
          canonicalEncodingLength_def)
  next
    case (Secp256k1Scalar v)
    with assms s r obtain w where "y = Secp256k1Scalar w"
      by (cases y) (simp_all add: ecc_Group_def)
    with assms s r Secp256k1Scalar show ?thesis
      by (simp add: ecc_Decode_def ecc_Encode_def secp_Decode_Encode length_secp_Encode
          scalarLength_def)
  qed
qed

theorem Scalar_Encode_Decode_roundtrip_witness:
  "ecc_Decode (Scalar (Ristretto255Scalar 0)) (ecc_Encode (Scalar (Ristretto255Scalar 78125))) =
     (Scalar (Ristretto255Scalar 78125), None) \<and>
   length (ecc_Encode (Scalar (Ristretto255Scalar 78125))) = 32"
proof -
  have 1: "in_range (internal (Scalar (Ristretto255Scalar 78125)))" by (simp add: order_def)
  have 2: "ecc_Group (Scalar (Ristretto255Scalar 0)) = ecc_Group (Scalar (Ristretto255Scalar 78125))"
    by (simp add: ecc_Group_def)
  from Scalar_Encode_Decode_roundtrip [OF 1 2] show ?thesis
    by (simp add: canonicalEncodingLength_def)
qed

section \<open>Coercion to and from 64-bit integers\<close>





















section \<open>Nil operands and element decoding\<close>

text \<open>
  C9. For every scalar \<open>s\<close>, \<open>s.Add(nil)\<close> and \<open>s.Subtract(nil)\<close> return \<open>s\<close>
  unchanged and \<open>s.Multiply(nil)\<close> sets \<open>s\<close> to the zero of its group; for every element
  \<open>e\<close>, \<open>e.Multiply(nil)\<close> sets \<open>e\<close> to the identity.
\<close>

theorem Scalar_nil_operands:
  "ecc_Add s None = Return s \<and>
   ecc_Subtract s None = Return s \<and>
   ecc_Multiply s None = Return (ecc_Zero s) \<and>
   ecc_IsZero (ecc_Zero s) \<and>
   ecc_Group (ecc_Zero s) = ecc_Group s \<and>
   ecc_Element_Multiply P e None = Return (ecc_Element_Identity P e) \<and>
   internal_element (ecc_Element_Identity P e) = Ed25519Element (NewIdentityPoint P)"
proof -
  obtain x where s: "s = Scalar x" by (cases s)
  obtain p where e: "e = Element (Ed25519Element p)"
    by (cases e) (metis internal_Element.exhaust)
  have z: "ecc_IsZero (ecc_Zero s) \<and> ecc_Group (ecc_Zero s) = ecc_Group s"
    unfolding s
    by (cases x)
      (simp_all add: ecc_IsZero_def ecc_Zero_def ecc_Group_def ed_Zero_def ed_IsZero_iff
        sc_NewScalar_def rist_Zero_def rist_IsZero_iff secp_Zero_def secp_IsZero_def)
  show ?thesis
    using z
    by (simp add: ecc_Add_def ecc_Subtract_def ecc_Multiply_def ecc_Element_Multiply_def
        ecc_Element_Identity_def e ed_Element_Identity_def)
qed

text \<open>
  C10. For every scalar \<open>s\<close>, \<open>s.Set(nil)\<close> returns and sets \<open>s\<close> to the zero of its
  group; for every element \<open>e\<close>, \<open>e.Set(nil)\<close> returns and sets \<open>e\<close> to the identity.
\<close>

theorem Set_nil:
  "ecc_Set s None = Return (ecc_Zero s) \<and>
   ecc_IsZero (ecc_Zero s) \<and>
   ecc_Group (ecc_Zero s) = ecc_Group s \<and>
   ecc_Element_Set P e None = Return (ecc_Element_Identity P e) \<and>
   internal_element (ecc_Element_Identity P e) = Ed25519Element (NewIdentityPoint P)"
proof -
  obtain x where s: "s = Scalar x" by (cases s)
  obtain p where e: "e = Element (Ed25519Element p)"
    by (cases e) (metis internal_Element.exhaust)
  have z: "ecc_IsZero (ecc_Zero s) \<and> ecc_Group (ecc_Zero s) = ecc_Group s"
    unfolding s
    by (cases x)
      (simp_all add: ecc_IsZero_def ecc_Zero_def ecc_Group_def ed_Zero_def ed_IsZero_iff
        sc_NewScalar_def rist_Zero_def rist_IsZero_iff secp_Zero_def secp_IsZero_def)
  show ?thesis
    using z
    by (simp add: ecc_Set_def ecc_Element_Set_def ecc_Element_Identity_def e
        ed_Element_Set_def ed_Element_Identity_def)
qed

text \<open>
  C2, at a concrete element: \<open>Add(nil)\<close> and \<open>Subtract(nil)\<close> of package ecc return
  the receiver unchanged; they do not panic with \<open>ErrParamNilPoint\<close>.
\<close>

theorem Element_Add_nil_returns:
  "ecc_Element_Add two_Point (Element (Ed25519Element True)) None =
     Return (Element (Ed25519Element True)) \<and>
   ecc_Element_Add two_Point (Element (Ed25519Element True)) None \<noteq> Panic ErrParamNilPoint \<and>
   ecc_Element_Subtract two_Point (Element (Ed25519Element True)) None =
     Return (Element (Ed25519Element True)) \<and>
   ecc_Element_Subtract two_Point (Element (Ed25519Element True)) None \<noteq> Panic ErrParamNilPoint"
  by (simp add: ecc_Element_Add_def ecc_Element_Subtract_def)

text \<open>
  C2, amended. \<open>Add(nil)\<close> and \<open>Subtract(nil)\<close> of \<open>ecc.Element\<close> return the receiver
  unchanged, for every element and provider; \<open>Add\<close> and \<open>Subtract\<close> of the backend
  element beneath it, called with a \<open>nil\<close> operand, panic with \<open>ErrParamNilPoint\<close>.
\<close>

theorem Element_Add_Subtract_nil:
  "ecc_Element_Add P e None = Return e \<and>
   ecc_Element_Subtract P e None = Return e \<and>
   internal_Element_Add P x None = Panic ErrParamNilPoint \<and>
   internal_Element_Subtract P x None = Panic ErrParamNilPoint"
  by (cases x)
    (simp add: ecc_Element_Add_def ecc_Element_Subtract_def ed_Element_Add_def
      ed_Element_Subtract_def)

lemma two_Point_contract: "ed_Point_contract two_Point"
  by (simp add: ed_Point_contract_def two_Point_def)

text \<open>
  C5. Over a provider that meets the encoding contract, \<open>Decode\<close> of package
  edwards25519 applied to the identity's encoding fails with the wrapped \<open>ErrIdentity\<close>
  and leaves the receiver unchanged; for every other element \<open>e\<close>,
  \<open>Decode(Encode(e))\<close> succeeds with \<open>e\<close>, which encodes to the bytes it was decoded
  from; and no successful \<open>Decode\<close> yields the identity.
\<close>

theorem Element_Decode_identity:
  assumes "ed_Point_contract P"
  shows "ed_Element_Decode P r (ed_Element_Encode P (NewIdentityPoint P)) =
           (r, Some (ErrWrap ''invalid edwards25519 encoding'' ErrIdentity)) \<and>
         (\<forall>e. e \<noteq> NewIdentityPoint P \<longrightarrow>
            ed_Element_Decode P r (ed_Element_Encode P e) = (e, None) \<and>
            ed_Element_Encode P (fst (ed_Element_Decode P r (ed_Element_Encode P e))) =
              ed_Element_Encode P e) \<and>
         (\<forall>d e. ed_Element_Decode P r d = (e, None) \<longrightarrow> e \<noteq> NewIdentityPoint P)"
proof -
  from assms have sb: "\<And>p. Point_SetBytes P (Point_Bytes P p) = Inr p"
    and len: "\<And>p. length (Point_Bytes P p) = 32"
    and eq: "\<And>p q. Point_Equal P p q = (if p = q then 1 else 0)"
    by (simp_all add: ed_Point_contract_def)
  have ne: "\<And>p. Point_Bytes P p \<noteq> []"
    using len by (metis length_0_conv zero_neq_numeral)
  have dec: "\<And>p. decodeElement P (Point_Bytes P p) = Inr p"
    by (simp add: decodeElement_def sb ne)
  have 1: "ed_Element_Decode P r (ed_Element_Encode P (NewIdentityPoint P)) =
           (r, Some (ErrWrap ''invalid edwards25519 encoding'' ErrIdentity))"
    by (simp add: ed_Element_Decode_def ed_Element_Encode_def dec eq)
  have 2: "\<forall>e. e \<noteq> NewIdentityPoint P \<longrightarrow>
            ed_Element_Decode P r (ed_Element_Encode P e) = (e, None) \<and>
            ed_Element_Encode P (fst (ed_Element_Decode P r (ed_Element_Encode P e))) =
              ed_Element_Encode P e"
    by (simp add: ed_Element_Decode_def ed_Element_Encode_def dec eq)
  have 3: "\<forall>d e. ed_Element_Decode P r d = (e, None) \<longrightarrow> e \<noteq> NewIdentityPoint P"
    by (auto simp: ed_Element_Decode_def eq split: sum.splits if_splits)
  from 1 2 3 show ?thesis by (intro conjI)
qed

theorem Element_Decode_identity_witness:
  "ed_Element_Decode two_Point True (ed_Element_Encode two_Point False) =
     (True, Some (ErrWrap ''invalid edwards25519 encoding'' ErrIdentity)) \<and>
   ed_Element_Decode two_Point False (ed_Element_Encode two_Point True) = (True, None) \<and>
   ed_Element_Encode two_Point
     (fst (ed_Element_Decode two_Point False (ed_Element_Encode two_Point True))) =
     ed_Element_Encode two_Point True"
proof -
  have i: "NewIdentityPoint two_Point = False" by (simp add: two_Point_def)
  have a: "ed_Element_Decode two_Point True (ed_Element_Encode two_Point False) =
     (True, Some (ErrWrap ''invalid edwards25519 encoding'' ErrIdentity))"
    using Element_Decode_identity [OF two_Point_contract, of True] by (simp add: i)
  have ne: "True \<noteq> NewIdentityPoint two_Point" by (simp add: i)
  have b: "ed_Element_Decode two_Point False (ed_Element_Encode two_Point True) = (True, None) \<and>
      ed_Element_Encode two_Point
        (fst (ed_Element_Decode two_Point False (ed_Element_Encode two_Point True))) =
      ed_Element_Encode two_Point True"
    by (rule Element_Decode_identity [OF two_Point_contract, of False, THEN conjunct2,
          THEN conjunct1, THEN spec, THEN mp, OF ne])
  from a b show ?thesis by simp
qed

end
